theory Spec2Isabelle
  imports Main "HOL-Library.Sublist"
begin

section \<open>The browser platform the widget runs on\<close>

text \<open>
  CookieDialog is a TypeScript library that runs in a browser: a consent store on top of
  \<^verbatim>\<open>localStorage\<close>, a region resolver on top of \<^verbatim>\<open>fetch\<close>, and the dialog class
  that ties them together at startup. The three platform services the code uses,
  \<^verbatim>\<open>localStorage\<close>, \<^verbatim>\<open>Date.now()\<close> and \<^verbatim>\<open>fetch\<close>, are an explicit \<open>world\<close>
  that every operation takes and returns. Timestamps are integers (milliseconds); the
  arithmetic on them is exact in JavaScript as long as it stays below \<open>2^53\<close>.
\<close>

subsection \<open>Values read from a JSON response\<close>

text \<open>
  \<^verbatim>\<open>response.json()\<close> has type \<^verbatim>\<open>any\<close>; the fields read from it flow unchecked into
  \<^verbatim>\<open>GeolocationResponse\<close>. They are therefore kept as dynamic values. JSON numbers are
  taken as integers: the code only ever tests them for truthiness. \<open>Obj\<close> lists the
  properties of a parsed object, each key once.
\<close>

datatype jsval =
    Undefined
  | Null
  | Bool bool
  | Num int
  | Str string
  | Arr "jsval list"
  | Obj "(string \<times> jsval) list"

text \<open>JavaScript truthiness, as used by \<^verbatim>\<open>||\<close> and \<^verbatim>\<open>!\<close>.\<close>

fun truthy :: "jsval \<Rightarrow> bool" where
  "truthy Undefined = False"
| "truthy Null = False"
| "truthy (Bool b) = b"
| "truthy (Num n) = (n \<noteq> 0)"
| "truthy (Str s) = (s \<noteq> [])"
| "truthy (Arr _) = True"
| "truthy (Obj _) = True"

definition js_or :: "jsval \<Rightarrow> jsval \<Rightarrow> jsval" where
  "js_or a b = (if truthy a then a else b)"

datatype js_error = TypeError | SyntaxError | StorageError

text \<open>
  Property access \<^verbatim>\<open>data.f\<close> throws a TypeError when \<^verbatim>\<open>data\<close> is \<^verbatim>\<open>null\<close> or
  \<^verbatim>\<open>undefined\<close>. Otherwise it yields the property's value on an object that has it,
  and \<^verbatim>\<open>undefined\<close> in every other case (none of the property names the code reads
  exists on a boolean, number, string or array).
\<close>

fun nullish :: "jsval \<Rightarrow> bool" where
  "nullish Undefined = True"
| "nullish Null = True"
| "nullish _ = False"

fun field :: "jsval \<Rightarrow> string \<Rightarrow> jsval" where
  "field (Obj kvs) f = (case map_of kvs f of None \<Rightarrow> Undefined | Some v \<Rightarrow> v)"
| "field _ f = Undefined"

text \<open>\<^verbatim>\<open>String.prototype.includes\<close>: the argument occurs as a contiguous substring.\<close>

definition includes_str :: "string \<Rightarrow> string \<Rightarrow> bool" where
  "includes_str s sub = sublist sub s"

subsection \<open>types.ts\<close>

record CookieCategory =
  cat_id :: string
  name :: string
  description :: string
  required :: bool

datatype reason = user_accept | user_reject | location_not_required

record GeolocationResponse =
  inEU :: jsval
  country :: jsval
  region :: jsval

text \<open>
  The \<^verbatim>\<open>locationData\<close> member of \<^verbatim>\<open>ConsentState\<close> has the three fields of
  \<^verbatim>\<open>GeolocationResponse\<close> and \<^verbatim>\<open>detectionMethod\<close>.
\<close>

record locationData = GeolocationResponse +
  detectionMethod :: string

record ConsentState =
  timestamp :: int
  categories :: "string \<rightharpoonup> bool"
  version :: string
  reason :: reason
  locationData :: "locationData option"

subsection \<open>Stored text, events and the world\<close>

text \<open>
  The string kept under the storage key is represented by what \<^verbatim>\<open>JSON.parse\<close> makes of
  it: \<open>Malformed s\<close> is the text \<open>s\<close> on which \<^verbatim>\<open>JSON.parse\<close> throws a SyntaxError (the
  empty string is one of them), \<open>Json c\<close> is a text that parses to the \<^verbatim>\<open>ConsentState\<close>
  \<open>c\<close>. \<^verbatim>\<open>JSON.stringify\<close> of a \<^verbatim>\<open>ConsentState\<close> produces such a text (a member that is
  \<^verbatim>\<open>undefined\<close> is left out and reads back as \<^verbatim>\<open>undefined\<close>). The source casts the
  parsed value to \<^verbatim>\<open>ConsentState\<close> without a check; texts that parse to a value of
  another shape are outside that type and are not represented.
\<close>

datatype stored_text = Malformed string | Json ConsentState

definition JSON_parse :: "stored_text \<Rightarrow> js_error + ConsentState" where
  "JSON_parse t = (case t of Malformed s \<Rightarrow> Inl SyntaxError | Json c \<Rightarrow> Inr c)"

definition is_empty :: "stored_text \<Rightarrow> bool" where
  "is_empty t = (case t of Malformed s \<Rightarrow> s = [] | Json c \<Rightarrow> False)"

definition JSON_stringify :: "ConsentState \<Rightarrow> stored_text" where
  "JSON_stringify c = Json c"

text \<open>
  What the program does to its surroundings is recorded, in order, as a trace of events:
  calls of \<^verbatim>\<open>localStorage.setItem\<close> and \<^verbatim>\<open>removeItem\<close>, calls of the region resolver,
  network lookups, and invocations of the caller's notification hooks.
\<close>

datatype event =
    SetItem stored_text
  | RemoveItem
  | Resolve
  | Fetch string
  | OnAccept ConsentState
  | OnReject
  | OnChange ConsentState
  | OnLocationNotRequired GeolocationResponse

text \<open>What \<^verbatim>\<open>fetch\<close> followed by \<^verbatim>\<open>response.json()\<close> can deliver.\<close>

datatype body = NotJson | JsonBody jsval

datatype fetch_outcome = Rejected | Response bool body

text \<open>
  \<open>item\<close> is the entry under \<^verbatim>\<open>STORAGE_KEY\<close>. The three flags say whether the
  corresponding \<^verbatim>\<open>localStorage\<close> call throws (quota exceeded, storage disabled).
  \<open>clock\<close> lists the values successive calls of \<^verbatim>\<open>Date.now()\<close> return and \<open>ticks\<close>
  counts the calls made so far; \<open>network\<close> and \<open>fetches\<close> do the same for \<^verbatim>\<open>fetch\<close>.
\<close>

record world =
  item :: "stored_text option"
  getItem_throws :: bool
  setItem_throws :: bool
  removeItem_throws :: bool
  clock :: "nat \<Rightarrow> int"
  ticks :: nat
  network :: "nat \<Rightarrow> fetch_outcome"
  fetches :: nat
  trace :: "event list"

definition emit :: "event \<Rightarrow> world \<Rightarrow> world" where
  "emit e w = w\<lparr>trace := trace w @ [e]\<rparr>"

definition Date_now :: "world \<Rightarrow> int \<times> world" where
  "Date_now w = (clock w (ticks w), w\<lparr>ticks := Suc (ticks w)\<rparr>)"

definition localStorage_getItem :: "world \<Rightarrow> js_error + stored_text option" where
  "localStorage_getItem w = (if getItem_throws w then Inl StorageError else Inr (item w))"

definition localStorage_setItem :: "stored_text \<Rightarrow> world \<Rightarrow> (js_error + unit) \<times> world" where
  "localStorage_setItem t w =
     (if setItem_throws w then (Inl StorageError, emit (SetItem t) w)
      else (Inr (), (emit (SetItem t) w)\<lparr>item := Some t\<rparr>))"

definition localStorage_removeItem :: "world \<Rightarrow> (js_error + unit) \<times> world" where
  "localStorage_removeItem w =
     (if removeItem_throws w then (Inl StorageError, emit RemoveItem w)
      else (Inr (), (emit RemoveItem w)\<lparr>item := None\<rparr>))"

definition fetch :: "string \<Rightarrow> world \<Rightarrow> fetch_outcome \<times> world" where
  "fetch url w = (network w (fetches w), (emit (Fetch url) w)\<lparr>fetches := Suc (fetches w)\<rparr>)"

section \<open>storage.ts\<close>

definition STORAGE_VERSION :: string where
  "STORAGE_VERSION = ''1.0.0''"

record ConsentStorage =
  expiryDays :: int

definition new_ConsentStorage :: "int option \<Rightarrow> ConsentStorage" where
  "new_ConsentStorage d = \<lparr>expiryDays = (case d of None \<Rightarrow> 365 | Some n \<Rightarrow> n)\<rparr>"

definition clearConsent :: "world \<Rightarrow> world" where
  "clearConsent w = snd (localStorage_removeItem w)"

text \<open>
  \<^verbatim>\<open>getConsent\<close>: everything is inside one \<^verbatim>\<open>try\<close>, whose \<^verbatim>\<open>catch\<close> returns
  \<^verbatim>\<open>null\<close>. \<^verbatim>\<open>!stored\<close> holds for \<^verbatim>\<open>null\<close> and for the empty string.
\<close>

definition getConsent :: "ConsentStorage \<Rightarrow> world \<Rightarrow> ConsentState option \<times> world" where
  "getConsent s w =
     (case localStorage_getItem w of
        Inl e \<Rightarrow> (None, w)
      | Inr None \<Rightarrow> (None, w)
      | Inr (Some stored) \<Rightarrow>
          if is_empty stored then (None, w)
          else (case JSON_parse stored of
                  Inl e \<Rightarrow> (None, w)
                | Inr consent \<Rightarrow>
                    let expiryTime = timestamp consent + expiryDays s * 24 * 60 * 60 * 1000;
                        (now, w1) = Date_now w
                    in if now > expiryTime then (None, clearConsent w1)
                       else if version consent \<noteq> STORAGE_VERSION then (None, clearConsent w1)
                       else (Some consent, w1)))"

text \<open>
  \<^verbatim>\<open>saveConsent\<close>: \<^verbatim>\<open>reason\<close> defaults to \<^verbatim>\<open>'user_accept'\<close>; the \<^verbatim>\<open>catch\<close> around
  \<^verbatim>\<open>setItem\<close> only logs, and the record built is returned in both cases.
\<close>

definition saveConsent ::
  "(string \<rightharpoonup> bool) \<Rightarrow> reason option \<Rightarrow> locationData option \<Rightarrow> world \<Rightarrow> ConsentState \<times> world"
where
  "saveConsent cats r loc w =
     (let (now, w1) = Date_now w;
          consent = \<lparr>timestamp = now, categories = cats, version = STORAGE_VERSION,
                     reason = (case r of None \<Rightarrow> user_accept | Some x \<Rightarrow> x),
                     locationData = loc\<rparr>
      in case localStorage_setItem (JSON_stringify consent) w1 of
           (Inl e, w2) \<Rightarrow> (consent, w2)
         | (Inr u, w2) \<Rightarrow> (consent, w2))"

definition hasConsent :: "ConsentStorage \<Rightarrow> world \<Rightarrow> bool \<times> world" where
  "hasConsent s w = (let (c, w1) = getConsent s w in (c \<noteq> None, w1))"

definition getCategoryConsent :: "ConsentStorage \<Rightarrow> string \<Rightarrow> world \<Rightarrow> bool \<times> world" where
  "getCategoryConsent s categoryId w =
     (let (c, w1) = getConsent s w
      in case c of None \<Rightarrow> (False, w1)
         | Some consent \<Rightarrow> (categories consent categoryId = Some True, w1))"

text \<open>
  \<^verbatim>\<open>updateCategoryConsent\<close>: here \<^verbatim>\<open>return consent\<close> is inside the \<^verbatim>\<open>try\<close> and the
  \<^verbatim>\<open>catch\<close> returns \<^verbatim>\<open>null\<close>.
\<close>

definition updateCategoryConsent ::
  "ConsentStorage \<Rightarrow> string \<Rightarrow> bool \<Rightarrow> world \<Rightarrow> ConsentState option \<times> world"
where
  "updateCategoryConsent s categoryId v w =
     (let (c, w1) = getConsent s w
      in case c of
           None \<Rightarrow> (None, w1)
         | Some consent \<Rightarrow>
             let cats = (categories consent)(categoryId \<mapsto> v);
                 consent1 = consent\<lparr>categories := cats\<rparr>;
                 (now, w2) = Date_now w1;
                 consent2 = consent1\<lparr>timestamp := now\<rparr>
             in (case localStorage_setItem (JSON_stringify consent2) w2 of
                   (Inl e, w3) \<Rightarrow> (None, w3)
                 | (Inr u, w3) \<Rightarrow> (Some consent2, w3)))"

section \<open>geolocation.ts\<close>

definition CACHE_DURATION :: int where
  "CACHE_DURATION = 3600000"

record GeolocationService =
  endpoint :: string
  cache :: "GeolocationResponse option"
  cacheTimestamp :: int

text \<open>\<^verbatim>\<open>customEndpoint || 'https://ipapi.co/json/'\<close>: an empty string is falsy too.\<close>

definition new_GeolocationService :: "string option \<Rightarrow> GeolocationService" where
  "new_GeolocationService customEndpoint =
     \<lparr>endpoint = (case customEndpoint of
                     None \<Rightarrow> ''https://ipapi.co/json/''
                   | Some e \<Rightarrow> if e = [] then ''https://ipapi.co/json/'' else e),
      cache = None, cacheTimestamp = 0\<rparr>"

definition euCountries :: "string list" where
  "euCountries =
     [''AT'', ''BE'', ''BG'', ''HR'', ''CY'', ''CZ'', ''DK'', ''EE'', ''FI'', ''FR'',
      ''DE'', ''GR'', ''HU'', ''IE'', ''IT'', ''LV'', ''LT'', ''LU'', ''MT'', ''NL'',
      ''PL'', ''PT'', ''RO'', ''SK'', ''SI'', ''ES'', ''SE'', ''GB'', ''IS'', ''LI'', ''NO'']"

text \<open>
  The two response formats. Reading the first member of a \<^verbatim>\<open>null\<close> body throws.
  \<^verbatim>\<open>Array.prototype.includes\<close> compares with SameValueZero, so only a string equal
  to a list entry is found.
\<close>

definition ipapi_format :: "jsval \<Rightarrow> js_error + GeolocationResponse" where
  "ipapi_format data =
     (if nullish data then Inl TypeError
      else Inr \<lparr>inEU = Bool (field data ''country_code'' \<in> set (map Str euCountries)),
                country = field data ''country_name'',
                region = field data ''region''\<rparr>)"

definition custom_format :: "jsval \<Rightarrow> js_error + GeolocationResponse" where
  "custom_format data =
     (if nullish data then Inl TypeError
      else Inr \<lparr>inEU = js_or (js_or (field data ''inEU'') (field data ''in_eu'')) (Bool False),
                country = field data ''country'',
                region = field data ''region''\<rparr>)"

text \<open>The value the \<^verbatim>\<open>catch\<close> block of \<^verbatim>\<open>checkLocation\<close> returns.\<close>

definition on_error :: GeolocationResponse where
  "on_error = \<lparr>inEU = Bool True, country = Undefined, region = Undefined\<rparr>"

text \<open>
  The part of \<^verbatim>\<open>checkLocation\<close> after the cache test: the lookup, inside \<^verbatim>\<open>try\<close>.
  A rejected \<^verbatim>\<open>fetch\<close>, \<^verbatim>\<open>!response.ok\<close>, a body that is not JSON and a TypeError
  while reading the body all end in the \<^verbatim>\<open>catch\<close> block, which leaves the cache alone.
\<close>

definition lookup ::
  "GeolocationService \<Rightarrow> world \<Rightarrow> GeolocationResponse \<times> GeolocationService \<times> world"
where
  "lookup g w =
     (case fetch (endpoint g) w of
        (Rejected, w1) \<Rightarrow> (on_error, g, w1)
      | (Response ok b, w1) \<Rightarrow>
          if \<not> ok then (on_error, g, w1)
          else (case b of
                  NotJson \<Rightarrow> (on_error, g, w1)
                | JsonBody data \<Rightarrow>
                    (case (if includes_str (endpoint g) ''ipapi.co'' then ipapi_format data
                           else custom_format data) of
                       Inl e \<Rightarrow> (on_error, g, w1)
                     | Inr result \<Rightarrow>
                         let (now, w2) = Date_now w1
                         in (result, g\<lparr>cache := Some result, cacheTimestamp := now\<rparr>, w2))))"

text \<open>
  \<^verbatim>\<open>this.cache && (Date.now() - this.cacheTimestamp) < this.CACHE_DURATION\<close>: the clock is
  read only when there is a cached result. Each call is recorded as \<open>Resolve\<close>.
\<close>

definition checkLocation ::
  "GeolocationService \<Rightarrow> world \<Rightarrow> GeolocationResponse \<times> GeolocationService \<times> world"
where
  "checkLocation g w0 =
     (let w = emit Resolve w0
      in case cache g of
           None \<Rightarrow> lookup g w
         | Some cached \<Rightarrow>
             let (now, w1) = Date_now w
             in if now - cacheTimestamp g < CACHE_DURATION then (cached, g, w1)
                else lookup g w1)"

definition clearCache :: "GeolocationService \<Rightarrow> GeolocationService" where
  "clearCache g = g\<lparr>cache := None, cacheTimestamp := 0\<rparr>"

section \<open>index.ts: the class CookieDialog\<close>

text \<open>
  Of the configuration, the members that only affect the rendering (position, theme, the two
  URLs, the display texts) are left out. A notification hook is represented by whether the
  caller supplied it; invoking it appends an event to the trace. Hooks are taken to return
  normally. Of the document, only the dialog element and its \<^verbatim>\<open>show\<close> class are kept;
  \<^verbatim>\<open>saveSettings\<close>, which reads the check boxes of the rendered dialog, is not part of
  the development. The method \<^verbatim>\<open>show\<close> is called \<open>show_dialog\<close> here.
\<close>

record Translations =
  necessaryCategory :: "string option"
  necessaryDescription :: "string option"

record CookieDialogConfig =
  enableLocation :: "bool option"
  autoShow :: "bool option"
  expiryDays_cfg :: "int option"
  forceShow :: "bool option"
  categories_cfg :: "CookieCategory list option"
  translations_cfg :: "Translations option"
  onAccept :: bool
  onReject :: bool
  onChange :: bool
  onLocationNotRequired :: bool
  geolocationEndpoint :: "string option"

text \<open>Truthiness of an optional boolean member.\<close>

definition is_true :: "bool option \<Rightarrow> bool" where
  "is_true b = (b = Some True)"

definition or_default :: "'a option \<Rightarrow> 'a \<Rightarrow> 'a option" where
  "or_default x d = (case x of None \<Rightarrow> Some d | Some v \<Rightarrow> Some v)"

definition mergeConfig :: "CookieDialogConfig \<Rightarrow> CookieDialogConfig" where
  "mergeConfig userConfig =
     userConfig\<lparr>enableLocation := or_default (enableLocation userConfig) False,
                autoShow := or_default (autoShow userConfig) True,
                expiryDays_cfg := or_default (expiryDays_cfg userConfig) 365,
                forceShow := or_default (forceShow userConfig) False\<rparr>"

definition getDefaultTranslations :: Translations where
  "getDefaultTranslations =
     \<lparr>necessaryCategory = Some ''Necessary'',
      necessaryDescription = Some ''Essential cookies for the website to function properly''\<rparr>"

definition or_string :: "string option \<Rightarrow> string \<Rightarrow> string" where
  "or_string x d = (case x of None \<Rightarrow> d | Some v \<Rightarrow> if v = [] then d else v)"

definition getDefaultCategories :: "Translations \<Rightarrow> CookieCategory list" where
  "getDefaultCategories tr =
     [\<lparr>cat_id = ''necessary'',
       name = or_string (necessaryCategory tr) ''Necessary'',
       description = or_string (necessaryDescription tr)
                       ''Essential cookies for the website to function properly'',
       required = True\<rparr>,
      \<lparr>cat_id = ''analytics'', name = ''Analytics'',
       description = ''Cookies to understand how visitors interact with the website'',
       required = False\<rparr>,
      \<lparr>cat_id = ''marketing'', name = ''Marketing'',
       description = ''Cookies to deliver personalized advertisements'',
       required = False\<rparr>]"

text \<open>
  \<open>dialogElement\<close> is \<open>None\<close> while no dialog has been rendered; \<open>Some v\<close> is a
  rendered dialog that carries the CSS class \<^verbatim>\<open>show\<close> iff \<open>v\<close>.
\<close>

record CookieDialog =
  config :: CookieDialogConfig
  storage :: ConsentStorage
  geolocation :: "GeolocationService option"
  dialogElement :: "bool option"
  categories_dlg :: "CookieCategory list"

definition new_CookieDialog :: "CookieDialogConfig \<Rightarrow> CookieDialog" where
  "new_CookieDialog userConfig =
     (let cfg = mergeConfig userConfig;
          tr = (case translations_cfg cfg of None \<Rightarrow> getDefaultTranslations | Some t \<Rightarrow> t)
      in \<lparr>config = cfg,
          storage = new_ConsentStorage (expiryDays_cfg cfg),
          geolocation = (if is_true (enableLocation cfg)
                         then Some (new_GeolocationService (geolocationEndpoint cfg))
                         else None),
          dialogElement = None,
          categories_dlg = (case categories_cfg cfg of
                              None \<Rightarrow> getDefaultCategories tr
                            | Some cs \<Rightarrow> cs)\<rparr>)"

definition render :: "CookieDialog \<Rightarrow> CookieDialog" where
  "render d = d\<lparr>dialogElement := Some True\<rparr>"

definition show_dialog :: "CookieDialog \<Rightarrow> CookieDialog" where
  "show_dialog d =
     (case dialogElement d of
        Some v \<Rightarrow> d\<lparr>dialogElement := Some True\<rparr>
      | None \<Rightarrow> render d)"

definition hide :: "CookieDialog \<Rightarrow> CookieDialog" where
  "hide d =
     (case dialogElement d of
        Some v \<Rightarrow> d\<lparr>dialogElement := Some False\<rparr>
      | None \<Rightarrow> d)"

text \<open>\<^verbatim>\<open>this.categories.forEach(cat => { consent[cat.id] = true; })\<close>\<close>

definition accept_every :: "CookieCategory list \<Rightarrow> (string \<rightharpoonup> bool)" where
  "accept_every cats = fold (\<lambda>cat consent. consent(cat_id cat \<mapsto> True)) cats Map.empty"

text \<open>\<^verbatim>\<open>this.categories.forEach(cat => { consent[cat.id] = cat.required; })\<close>\<close>

definition required_only :: "CookieCategory list \<Rightarrow> (string \<rightharpoonup> bool)" where
  "required_only cats = fold (\<lambda>cat consent. consent(cat_id cat \<mapsto> required cat)) cats Map.empty"

text \<open>The last statement of \<^verbatim>\<open>init\<close>: \<^verbatim>\<open>if (this.config.autoShow) this.show()\<close>.\<close>

definition show_if_autoShow :: "CookieDialog \<Rightarrow> CookieDialog" where
  "show_if_autoShow d = (if is_true (autoShow (config d)) then show_dialog d else d)"

text \<open>
  The branch of \<^verbatim>\<open>init\<close> taken when the visitor is outside the GDPR region and
  \<^verbatim>\<open>forceShow\<close> is off.
\<close>

definition consent_not_required ::
  "CookieDialog \<Rightarrow> GeolocationResponse \<Rightarrow> world \<Rightarrow> world"
where
  "consent_not_required d loc w =
     (let consent = accept_every (categories_dlg d);
          (consentState, w1) =
             saveConsent consent (Some location_not_required)
               (Some \<lparr>inEU = inEU loc, country = country loc, region = region loc,
                      detectionMethod = ''ip_geolocation''\<rparr>) w;
          w2 = (if onLocationNotRequired (config d)
                then emit (OnLocationNotRequired
                             \<lparr>inEU = inEU loc, country = country loc, region = region loc\<rparr>) w1
                else w1)
      in if onAccept (config d) then emit (OnAccept consentState) w2 else w2)"

definition init :: "CookieDialog \<Rightarrow> world \<Rightarrow> CookieDialog \<times> world" where
  "init d w =
     (case (if \<not> is_true (forceShow (config d)) then hasConsent (storage d) w
            else (False, w)) of
        (True, w1) \<Rightarrow>
          (case getConsent (storage d) w1 of
             (Some consent, w2) \<Rightarrow>
               if onAccept (config d) then (d, emit (OnAccept consent) w2) else (d, w2)
           | (None, w2) \<Rightarrow> (d, w2))
      | (False, w1) \<Rightarrow>
          (case (if is_true (enableLocation (config d)) then geolocation d else None) of
             Some g \<Rightarrow>
               let (locationData, g1, w2) = checkLocation g w1;
                   d1 = d\<lparr>geolocation := Some g1\<rparr>
               in if \<not> truthy (inEU locationData) \<and> \<not> is_true (forceShow (config d))
                  then (d1, consent_not_required d1 locationData w2)
                  else (show_if_autoShow d1, w2)
           | None \<Rightarrow> (show_if_autoShow d, w1)))"

definition acceptAll :: "CookieDialog \<Rightarrow> world \<Rightarrow> CookieDialog \<times> world" where
  "acceptAll d w =
     (let (state, w1) = saveConsent (accept_every (categories_dlg d)) (Some user_accept) None w
      in (hide d, if onAccept (config d) then emit (OnAccept state) w1 else w1))"

definition rejectAll :: "CookieDialog \<Rightarrow> world \<Rightarrow> CookieDialog \<times> world" where
  "rejectAll d w =
     (let (state, w1) = saveConsent (required_only (categories_dlg d)) (Some user_reject) None w
      in (hide d, if onReject (config d) then emit OnReject w1 else w1))"

definition resetConsent :: "CookieDialog \<Rightarrow> world \<Rightarrow> world" where
  "resetConsent d w = clearConsent w"

section \<open>Notions used to state the properties\<close>

text \<open>The record literal that \<^verbatim>\<open>saveConsent\<close> builds when called in world \<open>w\<close>.\<close>

definition new_consent ::
  "(string \<rightharpoonup> bool) \<Rightarrow> reason option \<Rightarrow> locationData option \<Rightarrow> world \<Rightarrow> ConsentState"
where
  "new_consent cats r loc w =
     \<lparr>timestamp = clock w (ticks w), categories = cats, version = STORAGE_VERSION,
      reason = (case r of None \<Rightarrow> user_accept | Some x \<Rightarrow> x), locationData = loc\<rparr>"

text \<open>
  The specification's reading of what a write stores: the given mapping with every category
  that the configuration declares required forced to true.
\<close>

definition required_ids :: "CookieCategory list \<Rightarrow> string list" where
  "required_ids cats = map cat_id (filter required cats)"

definition forceRequired ::
  "CookieCategory list \<Rightarrow> (string \<rightharpoonup> bool) \<Rightarrow> (string \<rightharpoonup> bool)"
where
  "forceRequired cats C = (\<lambda>k. if k \<in> set (required_ids cats) then Some True else C k)"

text \<open>A mapping grants the identifiers \<open>req\<close> when it sends each of them to true.\<close>

definition grants :: "string list \<Rightarrow> (string \<rightharpoonup> bool) \<Rightarrow> bool" where
  "grants req C = list_all (\<lambda>k. C k = Some True) req"

text \<open>
  Sequences of store operations. \<open>reads s ops w\<close> runs \<open>ops\<close> in order from world \<open>w\<close>
  and collects the records that the \<open>Read\<close> operations return.
\<close>

datatype store_op =
    Write "string \<rightharpoonup> bool" reason "locationData option"
  | UpdateCategory string bool
  | Clear
  | Read

fun reads :: "ConsentStorage \<Rightarrow> store_op list \<Rightarrow> world \<Rightarrow> ConsentState list" where
  "reads s [] w = []"
| "reads s (Write C R L # ops) w = reads s ops (snd (saveConsent C (Some R) L w))"
| "reads s (UpdateCategory k v # ops) w = reads s ops (snd (updateCategoryConsent s k v w))"
| "reads s (Clear # ops) w = reads s ops (clearConsent w)"
| "reads s (Read # ops) w =
     (case getConsent s w of
        (None, w1) \<Rightarrow> reads s ops w1
      | (Some c, w1) \<Rightarrow> c # reads s ops w1)"

text \<open>
  An operation keeps the identifiers \<open>req\<close> granted when it is a write of a mapping that
  grants them, or an update that does not set one of them to false.
\<close>

fun keeps_required :: "string list \<Rightarrow> store_op \<Rightarrow> bool" where
  "keeps_required req (Write C R L) = grants req C"
| "keeps_required req (UpdateCategory k v) = (k \<in> set req \<longrightarrow> v)"
| "keeps_required req Clear = True"
| "keeps_required req Read = True"

definition stored_grants :: "string list \<Rightarrow> world \<Rightarrow> bool" where
  "stored_grants req w =
     (case item w of
        None \<Rightarrow> True
      | Some (Malformed b) \<Rightarrow> True
      | Some (Json c) \<Rightarrow> grants req (categories c))"

text \<open>
  The cache test of \<^verbatim>\<open>checkLocation\<close> and the world it leaves behind (the call is
  recorded, and the clock has been read if there was a cached result).
\<close>

definition cache_fresh :: "GeolocationService \<Rightarrow> world \<Rightarrow> bool" where
  "cache_fresh g w =
     (cache g \<noteq> None \<and> clock w (ticks w) - cacheTimestamp g < CACHE_DURATION)"

definition after_cache_test :: "GeolocationService \<Rightarrow> world \<Rightarrow> world" where
  "after_cache_test g w =
     (if cache g = None then w\<lparr>trace := trace w @ [Resolve]\<rparr>
      else w\<lparr>trace := trace w @ [Resolve], ticks := Suc (ticks w)\<rparr>)"

text \<open>The next lookup throws, or answers with a status outside 200--299.\<close>

definition lookup_fails :: "world \<Rightarrow> bool" where
  "lookup_fails w =
     (case network w (fetches w) of Rejected \<Rightarrow> True | Response ok b \<Rightarrow> \<not> ok)"

text \<open>
  The record \<^verbatim>\<open>init\<close> writes for a visitor whose region needs no consent: every
  declared category true, the region attached.
\<close>

definition region_exempt_record ::
  "CookieDialog \<Rightarrow> GeolocationResponse \<Rightarrow> world \<Rightarrow> ConsentState"
where
  "region_exempt_record d loc w =
     \<lparr>timestamp = clock w (ticks w),
      categories = (\<lambda>k. if k \<in> set (map cat_id (categories_dlg d)) then Some True else None),
      version = STORAGE_VERSION,
      reason = location_not_required,
      locationData = Some \<lparr>inEU = inEU loc, country = country loc, region = region loc,
                           detectionMethod = ''ip_geolocation''\<rparr>\<rparr>"

text \<open>
  \<^verbatim>\<open>init\<close> arrives at its last statement: no stored record stops it (or \<^verbatim>\<open>forceShow\<close>
  is on), and either the region check is not made or it does not end in the region-exempt
  branch.
\<close>

definition reaches_last_step :: "CookieDialog \<Rightarrow> world \<Rightarrow> bool" where
  "reaches_last_step d w =
     (case (if \<not> is_true (forceShow (config d)) then hasConsent (storage d) w
            else (False, w)) of
        (True, w1) \<Rightarrow> False
      | (False, w1) \<Rightarrow>
          (case (if is_true (enableLocation (config d)) then geolocation d else None) of
             None \<Rightarrow> True
           | Some g \<Rightarrow>
               truthy (inEU (fst (checkLocation g w1))) \<or> is_true (forceShow (config d))))"

section \<open>Concrete situations\<close>

text \<open>
  A browser with working storage and nothing stored; the clock starts at 1000 and advances
  by one at each reading; every lookup is refused by the network.
\<close>

definition quiet_world :: world where
  "quiet_world =
     \<lparr>item = None, getItem_throws = False, setItem_throws = False,
      removeItem_throws = False, clock = (\<lambda>n. 1000 + int n), ticks = 0,
      network = (\<lambda>n. Rejected), fetches = 0, trace = []\<rparr>"

definition year_storage :: ConsentStorage where
  "year_storage = new_ConsentStorage None"

definition earlier_consent :: ConsentState where
  "earlier_consent =
     \<lparr>timestamp = 900,
      categories = [''necessary'' \<mapsto> True, ''analytics'' \<mapsto> False, ''marketing'' \<mapsto> True],
      version = ''1.0.0'', reason = user_accept, locationData = None\<rparr>"

text \<open>A mapping that mentions only the category \<^verbatim>\<open>necessary\<close>.\<close>

definition only_necessary :: "bool \<Rightarrow> (string \<rightharpoonup> bool)" where
  "only_necessary b = [''necessary'' \<mapsto> b]"

text \<open>A returning visitor: \<open>earlier_consent\<close> is on file.\<close>

definition returning_world :: world where
  "returning_world = quiet_world\<lparr>item := Some (Json earlier_consent)\<rparr>"

text \<open>The same visitor, but \<^verbatim>\<open>setItem\<close> throws.\<close>

definition quota_world :: world where
  "quota_world = returning_world\<lparr>setItem_throws := True\<rparr>"

text \<open>The stored text is not JSON.\<close>

definition corrupt_world :: world where
  "corrupt_world = quiet_world\<lparr>item := Some (Malformed ''{not json'')\<rparr>"

text \<open>A first visit from the United States, seen through the default endpoint.\<close>

definition us_body :: jsval where
  "us_body =
     Obj [(''country_code'', Str ''US''), (''country_name'', Str ''United States''),
          (''region'', Str ''California''), (''inEU'', Bool True)]"

definition us_world :: world where
  "us_world = quiet_world\<lparr>network := (\<lambda>n. Response True (JsonBody us_body))\<rparr>"

definition no_options :: CookieDialogConfig where
  "no_options =
     \<lparr>enableLocation = None, autoShow = None, expiryDays_cfg = None, forceShow = None,
      categories_cfg = None, translations_cfg = None, onAccept = True, onReject = True,
      onChange = True, onLocationNotRequired = True, geolocationEndpoint = None\<rparr>"

definition plain_dialog :: CookieDialog where
  "plain_dialog = new_CookieDialog no_options"

definition silent_dialog :: CookieDialog where
  "silent_dialog = new_CookieDialog (no_options\<lparr>autoShow := Some False\<rparr>)"

definition located_dialog :: CookieDialog where
  "located_dialog = new_CookieDialog (no_options\<lparr>enableLocation := Some True\<rparr>)"

text \<open>A caller-supplied endpoint whose URL happens to contain \<^verbatim>\<open>ipapi.co\<close>.\<close>

definition proxy_service :: GeolocationService where
  "proxy_service = new_GeolocationService (Some ''https://geo.example.com/ipapi.co/lookup'')"

section \<open>The consent store\<close>

subsection \<open>What the store operations compute\<close>

lemma saveConsent_result:
  "saveConsent C r L w =
     (new_consent C r L w,
      w\<lparr>ticks := Suc (ticks w),
        trace := trace w @ [SetItem (Json (new_consent C r L w))],
        item := (if setItem_throws w then item w else Some (Json (new_consent C r L w)))\<rparr>)"
  by (simp add: saveConsent_def Date_now_def localStorage_setItem_def emit_def
      JSON_stringify_def Let_def new_consent_def)

lemma getConsent_cases:
  "getConsent s w =
     (case (if getItem_throws w then None else item w) of
        None \<Rightarrow> (None, w)
      | Some (Malformed b) \<Rightarrow> (None, w)
      | Some (Json c) \<Rightarrow>
          if clock w (ticks w) \<le> timestamp c + expiryDays s * 86400000
             \<and> version c = STORAGE_VERSION
          then (Some c, w\<lparr>ticks := Suc (ticks w)\<rparr>)
          else (None, w\<lparr>ticks := Suc (ticks w), trace := trace w @ [RemoveItem],
                        item := (if removeItem_throws w then item w else None)\<rparr>))"
  by (simp add: getConsent_def localStorage_getItem_def JSON_parse_def is_empty_def
      Date_now_def Let_def clearConsent_def localStorage_removeItem_def emit_def
      split: option.splits stored_text.splits)

lemma getConsent_valid:
  assumes "\<not> getItem_throws w" and "item w = Some (Json c)"
    and "clock w (ticks w) \<le> timestamp c + expiryDays s * 86400000"
    and "version c = STORAGE_VERSION"
  shows "getConsent s w = (Some c, w\<lparr>ticks := Suc (ticks w)\<rparr>)"
  using assms by (simp add: getConsent_cases)

lemma getConsent_malformed:
  "item w = Some (Malformed b) \<Longrightarrow> getConsent s w = (None, w)"
  by (simp add: getConsent_cases)

lemma getConsent_item:
  "getConsent s w = (r, w1) \<Longrightarrow> item w1 = item w \<or> item w1 = None"
  by (auto simp: getConsent_cases split: option.splits stored_text.splits if_splits)

lemma getConsent_Some_item:
  "getConsent s w = (Some c, w1) \<Longrightarrow> item w = Some (Json c)"
  by (auto simp: getConsent_cases split: option.splits stored_text.splits if_splits)

lemmas example_defs =
  quiet_world_def returning_world_def quota_world_def corrupt_world_def us_world_def
  year_storage_def new_ConsentStorage_def earlier_consent_def STORAGE_VERSION_def
  new_consent_def

subsection \<open>Reading back what was written\<close>

text \<open>
  C1 (amended). The store knows nothing about required categories and forces nothing. When
  \<^verbatim>\<open>setItem\<close> and \<^verbatim>\<open>getItem\<close> work, a \<^verbatim>\<open>getConsent\<close> that directly follows
  \<^verbatim>\<open>saveConsent(C, R)\<close>, at a clock reading no later than the record's timestamp plus
  \<^verbatim>\<open>expiryDays\<close> days, returns the very record \<^verbatim>\<open>saveConsent\<close> returned; its categories
  are \<open>C\<close> exactly as passed and its reason is \<open>R\<close>.
\<close>

theorem saveConsent_then_getConsent:
  assumes "\<not> setItem_throws w" and "\<not> getItem_throws w"
    and "saveConsent C (Some R) L w = (rec, w1)"
    and "clock w1 (ticks w1) \<le> timestamp rec + expiryDays s * 86400000"
  shows "getConsent s w1 = (Some rec, w1\<lparr>ticks := Suc (ticks w1)\<rparr>)
       \<and> categories rec = C \<and> reason rec = R"
proof -
  from assms(1-3) have r: "rec = new_consent C (Some R) L w"
    and w1: "item w1 = Some (Json rec)" "\<not> getItem_throws w1"
    by (auto simp: saveConsent_result)
  have "version rec = STORAGE_VERSION" "categories rec = C" "reason rec = R"
    by (simp_all add: r new_consent_def)
  then show ?thesis
    using getConsent_valid[OF w1(2) w1(1) assms(4)] by simp
qed

text \<open>
  The amended C1 at work: in a quiet browser, a rejection that leaves \<^verbatim>\<open>analytics\<close> off
  is read back unchanged.
\<close>

theorem saveConsent_then_getConsent_witness:
  "\<not> setItem_throws quiet_world \<and> \<not> getItem_throws quiet_world
   \<and> fst (getConsent year_storage
             (snd (saveConsent [''analytics'' \<mapsto> False] (Some user_reject) None quiet_world)))
       = Some (fst (saveConsent [''analytics'' \<mapsto> False] (Some user_reject) None quiet_world))
   \<and> categories (fst (saveConsent [''analytics'' \<mapsto> False] (Some user_reject) None quiet_world))
       = [''analytics'' \<mapsto> False]
   \<and> reason (fst (saveConsent [''analytics'' \<mapsto> False] (Some user_reject) None quiet_world))
       = user_reject"
proof -
  define rec where
    "rec = fst (saveConsent [''analytics'' \<mapsto> False] (Some user_reject) None quiet_world)"
  define w1 where
    "w1 = snd (saveConsent [''analytics'' \<mapsto> False] (Some user_reject) None quiet_world)"
  have h1: "\<not> setItem_throws quiet_world" and h2: "\<not> getItem_throws quiet_world"
    by (simp_all add: quiet_world_def)
  have h3: "saveConsent [''analytics'' \<mapsto> False] (Some user_reject) None quiet_world = (rec, w1)"
    by (simp add: rec_def w1_def)
  have h4: "clock w1 (ticks w1) \<le> timestamp rec + expiryDays year_storage * 86400000"
    by (simp add: rec_def w1_def example_defs saveConsent_result)
  show ?thesis
    using saveConsent_then_getConsent[OF h1 h2 h3 h4] h1 h2
    by (simp add: rec_def w1_def)
qed

text \<open>
  C1 as stated fails: with the default categories, \<^verbatim>\<open>necessary\<close> is required, yet a
  write of \<^verbatim>\<open>{necessary: false}\<close> is read back as written, not with \<^verbatim>\<open>necessary\<close>
  forced to true.
\<close>

theorem saveConsent_does_not_force_required:
  "map_option categories
     (fst (getConsent year_storage
        (snd (saveConsent (only_necessary False) (Some user_accept) None quiet_world))))
     = Some (only_necessary False)
   \<and> only_necessary False ''necessary'' = Some False
   \<and> forceRequired (getDefaultCategories getDefaultTranslations) (only_necessary False)
         ''necessary'' = Some True
   \<and> map_option categories
     (fst (getConsent year_storage
        (snd (saveConsent (only_necessary False) (Some user_accept) None quiet_world))))
     \<noteq> Some (forceRequired (getDefaultCategories getDefaultTranslations)
                (only_necessary False))"
proof -
  have 1: "map_option categories
     (fst (getConsent year_storage
        (snd (saveConsent (only_necessary False) (Some user_accept) None quiet_world))))
     = Some (only_necessary False)"
    by (simp add: example_defs saveConsent_result getConsent_cases)
  have 2: "only_necessary False ''necessary'' = Some False"
    by (simp add: only_necessary_def)
  have 3: "forceRequired (getDefaultCategories getDefaultTranslations) (only_necessary False)
         ''necessary'' = Some True"
    by (simp add: forceRequired_def required_ids_def getDefaultCategories_def)
  have 4: "only_necessary False
          \<noteq> forceRequired (getDefaultCategories getDefaultTranslations) (only_necessary False)"
  proof
    assume "only_necessary False
          = forceRequired (getDefaultCategories getDefaultTranslations) (only_necessary False)"
    then have "only_necessary False ''necessary''
          = forceRequired (getDefaultCategories getDefaultTranslations) (only_necessary False)
              ''necessary''"
      by (rule arg_cong)
    then show False
      using 2 3 by simp
  qed
  have 5: "map_option categories
     (fst (getConsent year_storage
        (snd (saveConsent (only_necessary False) (Some user_accept) None quiet_world))))
     \<noteq> Some (forceRequired (getDefaultCategories getDefaultTranslations)
                (only_necessary False))"
    unfolding 1 using 4 by simp
  show ?thesis
    using 1 2 3 5 by blast
qed

subsection \<open>Required categories across sequences of operations\<close>

lemma getConsent_keeps:
  assumes "stored_grants req w" and "getConsent s w = (r, w1)"
  shows "stored_grants req w1"
  using getConsent_item[OF assms(2)] assms(1) by (auto simp: stored_grants_def)

lemma getConsent_grants:
  assumes "stored_grants req w" and "getConsent s w = (Some c, w1)"
  shows "grants req (categories c)"
  using getConsent_Some_item[OF assms(2)] assms(1) by (simp add: stored_grants_def)

lemma grants_upd:
  "grants req C \<Longrightarrow> (k \<in> set req \<longrightarrow> v) \<Longrightarrow> grants req (C(k \<mapsto> v))"
  by (auto simp: grants_def list_all_iff)

lemma saveConsent_keeps:
  "grants req C \<Longrightarrow> stored_grants req w \<Longrightarrow> stored_grants req (snd (saveConsent C r L w))"
  by (simp add: saveConsent_result stored_grants_def new_consent_def)

lemma clearConsent_keeps:
  "stored_grants req w \<Longrightarrow> stored_grants req (clearConsent w)"
  by (simp add: clearConsent_def localStorage_removeItem_def emit_def stored_grants_def)

lemma updateCategoryConsent_keeps:
  assumes "stored_grants req w" and "k \<in> set req \<longrightarrow> v"
  shows "stored_grants req (snd (updateCategoryConsent s k v w))"
proof (cases "getConsent s w")
  case (Pair r w1)
  have w1: "stored_grants req w1"
    by (rule getConsent_keeps[OF assms(1) Pair])
  show ?thesis
  proof (cases r)
    case None
    then show ?thesis
      using Pair w1 by (simp add: updateCategoryConsent_def)
  next
    case (Some c)
    have "grants req (categories c)"
      using getConsent_grants[OF assms(1)] Pair Some by simp
    then have "grants req ((categories c)(k \<mapsto> v))"
      using assms(2) by (rule grants_upd)
    then show ?thesis
      using Pair Some w1
      by (simp add: updateCategoryConsent_def Date_now_def localStorage_setItem_def emit_def
          JSON_stringify_def stored_grants_def Let_def)
  qed
qed

text \<open>
  The mappings the dialog itself writes grant the required categories: always for
  \<^verbatim>\<open>acceptAll\<close>, and for \<^verbatim>\<open>rejectAll\<close> when no identifier is declared twice.
\<close>

lemma accept_every_fold:
  "fold (\<lambda>cat consent. consent(cat_id cat \<mapsto> True)) cats m =
     (\<lambda>k. if k \<in> set (map cat_id cats) then Some True else m k)"
  by (induction cats arbitrary: m) (auto simp: fun_eq_iff)

lemma accept_every_eq:
  "accept_every cats = (\<lambda>k. if k \<in> set (map cat_id cats) then Some True else None)"
  by (simp add: accept_every_def accept_every_fold)

lemma accept_every_grants:
  "grants (required_ids cats) (accept_every cats)"
  by (auto simp: grants_def list_all_iff accept_every_eq required_ids_def)

lemma required_only_untouched:
  "k \<notin> set (map cat_id cats) \<Longrightarrow>
     fold (\<lambda>cat consent. consent(cat_id cat \<mapsto> required cat)) cats m k = m k"
  by (induction cats arbitrary: m) auto

lemma required_only_distinct:
  "distinct (map cat_id cats) \<Longrightarrow> c \<in> set cats \<Longrightarrow>
     fold (\<lambda>cat consent. consent(cat_id cat \<mapsto> required cat)) cats m (cat_id c)
       = Some (required c)"
proof (induction cats arbitrary: m)
  case Nil
  then show ?case by simp
next
  case (Cons x xs)
  show ?case
  proof (cases "c = x")
    case True
    have "fold (\<lambda>cat consent. consent(cat_id cat \<mapsto> required cat)) (x # xs) m (cat_id x)
        = fold (\<lambda>cat consent. consent(cat_id cat \<mapsto> required cat)) xs
            (m(cat_id x \<mapsto> required x)) (cat_id x)"
      by (simp only: fold_simps)
    also have "\<dots> = (m(cat_id x \<mapsto> required x)) (cat_id x)"
      using Cons.prems(1) by (intro required_only_untouched) simp
    also have "\<dots> = Some (required x)"
      by simp
    finally show ?thesis
      unfolding True .
  next
    case False
    then show ?thesis
      using Cons by simp
  qed
qed

lemma required_only_grants:
  "distinct (map cat_id cats) \<Longrightarrow> grants (required_ids cats) (required_only cats)"
  by (auto simp: grants_def list_all_iff required_ids_def required_only_def
      required_only_distinct)

text \<open>
  C2 (amended). The store does not protect required categories; it returns what the
  operations put there. Every record returned by a read grants the required identifiers
  provided that the stored entry did so at the start (or was absent or unreadable), that
  every write was given a mapping that grants them, and that no update set one of them to
  false.
\<close>

theorem reads_keep_required:
  assumes "stored_grants req w" and "list_all (keeps_required req) ops"
  shows "list_all (\<lambda>c. grants req (categories c)) (reads s ops w)"
  using assms
proof (induction ops arbitrary: w)
  case Nil
  then show ?case by simp
next
  case (Cons op ops)
  show ?case
  proof (cases op)
    case (Write C R L)
    then show ?thesis
      using Cons by (simp add: saveConsent_keeps)
  next
    case (UpdateCategory k v)
    then show ?thesis
      using Cons by (simp add: updateCategoryConsent_keeps)
  next
    case Clear
    then show ?thesis
      using Cons by (simp add: clearConsent_keeps)
  next
    case Read
    obtain r w1 where g: "getConsent s w = (r, w1)"
      by (cases "getConsent s w")
    have "stored_grants req w1"
      using getConsent_keeps[OF Cons.prems(1) g] .
    then have ih: "list_all (\<lambda>c. grants req (categories c)) (reads s ops w1)"
      using Cons by simp
    show ?thesis
    proof (cases r)
      case None
      then show ?thesis
        using Read g ih by simp
    next
      case (Some c)
      have "grants req (categories c)"
        using getConsent_grants[OF Cons.prems(1)] g Some by simp
      then show ?thesis
        using Read g ih Some by simp
    qed
  qed
qed

text \<open>
  The amended C2 on a first visit with the default categories: accept the required category,
  switch an optional one on, read.
\<close>

theorem reads_keep_required_witness:
  "stored_grants [''necessary''] quiet_world
   \<and> list_all (keeps_required [''necessary''])
        [Write [''necessary'' \<mapsto> True, ''analytics'' \<mapsto> False] user_reject None,
         UpdateCategory ''analytics'' True, Read]
   \<and> list_all (\<lambda>c. grants [''necessary''] (categories c))
        (reads year_storage
           [Write [''necessary'' \<mapsto> True, ''analytics'' \<mapsto> False] user_reject None,
            UpdateCategory ''analytics'' True, Read]
           quiet_world)
   \<and> length (reads year_storage
           [Write [''necessary'' \<mapsto> True, ''analytics'' \<mapsto> False] user_reject None,
            UpdateCategory ''analytics'' True, Read]
           quiet_world) = 1"
proof -
  have h1: "stored_grants [''necessary''] quiet_world"
    by (simp add: stored_grants_def quiet_world_def)
  have h2: "list_all (keeps_required [''necessary''])
        [Write [''necessary'' \<mapsto> True, ''analytics'' \<mapsto> False] user_reject None,
         UpdateCategory ''analytics'' True, Read]"
    by (simp add: grants_def)
  have n: "length (reads year_storage
           [Write [''necessary'' \<mapsto> True, ''analytics'' \<mapsto> False] user_reject None,
            UpdateCategory ''analytics'' True, Read]
           quiet_world) = 1"
    by (simp add: example_defs saveConsent_result getConsent_cases updateCategoryConsent_def
        Date_now_def localStorage_setItem_def emit_def JSON_stringify_def Let_def)
  show ?thesis
    using reads_keep_required[OF h1 h2, of year_storage] h1 h2 n by blast
qed

text \<open>
  C2 as stated fails: after a write that grants the required category \<^verbatim>\<open>necessary\<close>,
  \<^verbatim>\<open>updateCategoryConsent('necessary', false)\<close> succeeds and the next read returns a
  record in which \<^verbatim>\<open>necessary\<close> is false.
\<close>

theorem updateCategoryConsent_unsets_required:
  "reads year_storage
     [Write (only_necessary True) user_accept None, UpdateCategory ''necessary'' False, Read]
     quiet_world
   = [\<lparr>timestamp = 1002, categories = only_necessary False, version = ''1.0.0'',
       reason = user_accept, locationData = None\<rparr>]
   \<and> required_ids (getDefaultCategories getDefaultTranslations) = [''necessary'']
   \<and> \<not> grants [''necessary''] (only_necessary False)"
  by (simp add: example_defs saveConsent_result getConsent_cases updateCategoryConsent_def
      Date_now_def localStorage_setItem_def emit_def JSON_stringify_def Let_def
      required_ids_def getDefaultCategories_def only_necessary_def grants_def)

subsection \<open>When the underlying store refuses to write\<close>

text \<open>
  C4 (amended). When \<^verbatim>\<open>setItem\<close> throws, neither writing operation raises.
  \<^verbatim>\<open>saveConsent\<close> returns the record it built, and the stored entry stays as it was.
  \<^verbatim>\<open>updateCategoryConsent\<close> returns \<^verbatim>\<open>null\<close>, not the updated record.
\<close>

theorem setItem_failure_results:
  assumes "setItem_throws w"
  shows "fst (saveConsent C r L w) = new_consent C r L w
       \<and> item (snd (saveConsent C r L w)) = item w
       \<and> fst (updateCategoryConsent s k v w) = None"
  using assms
  by (simp add: saveConsent_result updateCategoryConsent_def getConsent_cases Date_now_def
      localStorage_setItem_def JSON_stringify_def Let_def
      split: option.splits stored_text.splits prod.splits)

text \<open>The amended C4 for a returning visitor whose storage quota is exhausted.\<close>

theorem setItem_failure_results_witness:
  "setItem_throws quota_world
   \<and> fst (saveConsent [''necessary'' \<mapsto> True] (Some user_accept) None quota_world)
       = \<lparr>timestamp = 1000, categories = [''necessary'' \<mapsto> True], version = ''1.0.0'',
          reason = user_accept, locationData = None\<rparr>
   \<and> item (snd (saveConsent [''necessary'' \<mapsto> True] (Some user_accept) None quota_world))
       = Some (Json earlier_consent)
   \<and> fst (updateCategoryConsent year_storage ''analytics'' True quota_world) = None"
proof -
  have h: "setItem_throws quota_world"
    by (simp add: quota_world_def)
  show ?thesis
    using setItem_failure_results
      [OF h, of "[''necessary'' \<mapsto> True]" "Some user_accept" None
        year_storage "''analytics''" True] h
    by (simp add: example_defs)
qed

text \<open>
  C4 as stated fails for \<^verbatim>\<open>updateCategoryConsent\<close>: a valid record is on file, the update
  is built in memory, \<^verbatim>\<open>setItem\<close> throws, and the caller gets \<^verbatim>\<open>null\<close>.
\<close>

theorem updateCategoryConsent_setItem_failure:
  "setItem_throws quota_world
   \<and> fst (getConsent year_storage quota_world) = Some earlier_consent
   \<and> fst (updateCategoryConsent year_storage ''analytics'' True quota_world) = None"
  by (simp add: example_defs getConsent_cases updateCategoryConsent_def Date_now_def
      localStorage_setItem_def emit_def JSON_stringify_def Let_def)

subsection \<open>Expiry\<close>

text \<open>
  C7. Let a record be written at clock reading \<open>t\<close> into a store whose calls work, and let
  the stored entry be untouched since. A read at any clock reading up to and including
  \<open>t + expiryDays * 86400000\<close> returns the record and changes nothing in storage, so the
  deadline stays tied to the creation time. A read at any reading from
  \<open>t + expiryDays * 86400000 + 1\<close> on returns nothing and erases the entry.
\<close>

theorem getConsent_expiry_boundary:
  assumes "\<not> setItem_throws w"
    and "saveConsent C r L w = (rec, w1)"
    and "item w2 = item w1" and "\<not> getItem_throws w2" and "\<not> removeItem_throws w2"
  shows "(clock w2 (ticks w2) \<le> clock w (ticks w) + expiryDays s * 86400000 \<longrightarrow>
            getConsent s w2 = (Some rec, w2\<lparr>ticks := Suc (ticks w2)\<rparr>))
       \<and> (clock w (ticks w) + expiryDays s * 86400000 + 1 \<le> clock w2 (ticks w2) \<longrightarrow>
            fst (getConsent s w2) = None \<and> item (snd (getConsent s w2)) = None)"
proof -
  from assms(1,2) have r: "rec = new_consent C r L w" and i: "item w1 = Some (Json rec)"
    by (auto simp: saveConsent_result)
  have t: "timestamp rec = clock w (ticks w)" "version rec = STORAGE_VERSION"
    by (simp_all add: r new_consent_def)
  show ?thesis
    using assms(3-5) i t by (simp add: getConsent_cases)
qed

text \<open>
  C7 with one day of validity and a record written at 1000: still there one millisecond
  before the deadline and at the deadline, gone and erased one millisecond after.
\<close>

theorem getConsent_expiry_boundary_witness:
  "fst (getConsent \<lparr>expiryDays = 1\<rparr>
          ((snd (saveConsent [''necessary'' \<mapsto> True] None None quiet_world))
             \<lparr>clock := (\<lambda>n. 86400999)\<rparr>))
     = Some (fst (saveConsent [''necessary'' \<mapsto> True] None None quiet_world))
   \<and> fst (getConsent \<lparr>expiryDays = 1\<rparr>
          ((snd (saveConsent [''necessary'' \<mapsto> True] None None quiet_world))
             \<lparr>clock := (\<lambda>n. 86401000)\<rparr>))
     = Some (fst (saveConsent [''necessary'' \<mapsto> True] None None quiet_world))
   \<and> fst (getConsent \<lparr>expiryDays = 1\<rparr>
          ((snd (saveConsent [''necessary'' \<mapsto> True] None None quiet_world))
             \<lparr>clock := (\<lambda>n. 86401001)\<rparr>))
     = None
   \<and> item (snd (getConsent \<lparr>expiryDays = 1\<rparr>
          ((snd (saveConsent [''necessary'' \<mapsto> True] None None quiet_world))
             \<lparr>clock := (\<lambda>n. 86401001)\<rparr>)))
     = None"
proof -
  define rec where "rec = fst (saveConsent [''necessary'' \<mapsto> True] None None quiet_world)"
  define w1 where "w1 = snd (saveConsent [''necessary'' \<mapsto> True] None None quiet_world)"
  have h1: "\<not> setItem_throws quiet_world"
    by (simp add: quiet_world_def)
  have h2: "saveConsent [''necessary'' \<mapsto> True] None None quiet_world = (rec, w1)"
    by (simp add: rec_def w1_def)
  have h3: "item (w1\<lparr>clock := (\<lambda>n. t)\<rparr>) = item w1"
    and h4: "\<not> getItem_throws (w1\<lparr>clock := (\<lambda>n. t)\<rparr>)"
    and h5: "\<not> removeItem_throws (w1\<lparr>clock := (\<lambda>n. t)\<rparr>)" for t
    by (simp_all add: w1_def saveConsent_result quiet_world_def)
  have t0: "clock quiet_world (ticks quiet_world) = 1000"
    by (simp add: quiet_world_def)
  note b = getConsent_expiry_boundary[OF h1 h2 h3 h4 h5, where s = "\<lparr>expiryDays = 1\<rparr>"]
  show ?thesis
    using b[of 86400999] b[of 86401000] b[of 86401001]
    by (simp add: t0 rec_def w1_def)
qed

subsection \<open>Stored text that does not parse\<close>

text \<open>
  C9. If the stored text is not JSON, a read returns nothing and leaves the whole world as
  it was: the same bytes stay under the key and \<^verbatim>\<open>removeItem\<close> is not called. So after
  any number of reads the next one meets the same bytes and returns nothing again. An
  expired or version-mismatched record, in contrast, is erased by the read that finds it.
\<close>

theorem getConsent_malformed_persists:
  assumes "item w = Some (Malformed bytes)"
  shows "((\<lambda>x. snd (getConsent s x)) ^^ n) w = w
       \<and> getConsent s (((\<lambda>x. snd (getConsent s x)) ^^ n) w) = (None, w)
       \<and> (\<forall>v c. item v = Some (Json c) \<and> \<not> getItem_throws v \<and> \<not> removeItem_throws v
                 \<and> (timestamp c + expiryDays s * 86400000 < clock v (ticks v)
                      \<or> version c \<noteq> STORAGE_VERSION)
              \<longrightarrow> fst (getConsent s v) = None \<and> item (snd (getConsent s v)) = None)"
proof -
  have "((\<lambda>x. snd (getConsent s x)) ^^ n) w = w"
    by (induction n) (simp_all add: getConsent_malformed[OF assms])
  moreover have "\<forall>v c. item v = Some (Json c) \<and> \<not> getItem_throws v \<and> \<not> removeItem_throws v
                 \<and> (timestamp c + expiryDays s * 86400000 < clock v (ticks v)
                      \<or> version c \<noteq> STORAGE_VERSION)
              \<longrightarrow> fst (getConsent s v) = None \<and> item (snd (getConsent s v)) = None"
    by (auto simp: getConsent_cases)
  ultimately show ?thesis
    by (simp add: getConsent_malformed[OF assms])
qed

text \<open>C9 on a corrupt entry, read four times; and on a record of an older version.\<close>

theorem getConsent_malformed_persists_witness:
  "item corrupt_world = Some (Malformed ''{not json'')
   \<and> ((\<lambda>x. snd (getConsent year_storage x)) ^^ 3) corrupt_world = corrupt_world
   \<and> getConsent year_storage (((\<lambda>x. snd (getConsent year_storage x)) ^^ 3) corrupt_world)
       = (None, corrupt_world)
   \<and> item (snd (getConsent year_storage
                  (quiet_world\<lparr>item := Some (Json (earlier_consent\<lparr>version := ''0.9.0''\<rparr>))\<rparr>)))
       = None"
proof -
  have i: "item corrupt_world = Some (Malformed ''{not json'')"
    by (simp add: corrupt_world_def quiet_world_def)
  note t = getConsent_malformed_persists
    [where w = corrupt_world and bytes = "''{not json''" and s = year_storage and n = 3, OF i]
  from t have e: "\<And>v c. item v = Some (Json c) \<and> \<not> getItem_throws v \<and> \<not> removeItem_throws v
                 \<and> (timestamp c + expiryDays year_storage * 86400000 < clock v (ticks v)
                      \<or> version c \<noteq> STORAGE_VERSION)
              \<Longrightarrow> item (snd (getConsent year_storage v)) = None"
    by blast
  have "item (snd (getConsent year_storage
                  (quiet_world\<lparr>item := Some (Json (earlier_consent\<lparr>version := ''0.9.0''\<rparr>))\<rparr>)))
       = None"
    by (rule e[where c = "earlier_consent\<lparr>version := ''0.9.0''\<rparr>"])
       (simp add: quiet_world_def STORAGE_VERSION_def)
  then show ?thesis
    using i t by blast
qed

section \<open>The region resolver\<close>

lemma lookup_cases:
  "lookup g w =
     (let w1 = w\<lparr>fetches := Suc (fetches w), trace := trace w @ [Fetch (endpoint g)]\<rparr>
      in case network w (fetches w) of
           Rejected \<Rightarrow> (on_error, g, w1)
         | Response ok b \<Rightarrow>
             (case (if ok then b else NotJson) of
                NotJson \<Rightarrow> (on_error, g, w1)
              | JsonBody data \<Rightarrow>
                  if nullish data then (on_error, g, w1)
                  else (let result =
                              (if includes_str (endpoint g) ''ipapi.co''
                               then \<lparr>inEU = Bool (field data ''country_code''
                                                    \<in> set (map Str euCountries)),
                                     country = field data ''country_name'',
                                     region = field data ''region''\<rparr>
                               else \<lparr>inEU = js_or (js_or (field data ''inEU'')
                                                          (field data ''in_eu''))
                                                   (Bool False),
                                     country = field data ''country'',
                                     region = field data ''region''\<rparr>)
                        in (result,
                            g\<lparr>cache := Some result, cacheTimestamp := clock w (ticks w)\<rparr>,
                            w1\<lparr>ticks := Suc (ticks w)\<rparr>))))"
  by (simp add: lookup_def fetch_def emit_def Date_now_def ipapi_format_def
      custom_format_def Let_def split: fetch_outcome.splits body.splits)

lemma checkLocation_cases:
  "checkLocation g w =
     (if cache_fresh g w then (the (cache g), g, after_cache_test g w)
      else lookup g (after_cache_test g w))"
  by (auto simp: checkLocation_def cache_fresh_def after_cache_test_def emit_def
      Date_now_def Let_def split: option.splits)

lemma default_endpoint_includes:
  "includes_str ''https://ipapi.co/json/'' ''ipapi.co''"
proof -
  have "''https://ipapi.co/json/'' = ''https://'' @ ''ipapi.co'' @ ''/json/''"
    by simp
  then show ?thesis
    unfolding includes_str_def sublist_def by blast
qed

lemmas resolver_defs =
  new_GeolocationService_def proxy_service_def cache_fresh_def after_cache_test_def
  lookup_fails_def on_error_def us_body_def euCountries_def js_or_def

text \<open>
  C5. Suppose \<^verbatim>\<open>checkLocation\<close> has no fresh cached result, so that it makes the lookup,
  and the lookup throws or answers with a non-success status. Then it returns
  \<^verbatim>\<open>inEU = true\<close> with country and region undefined, and the service, cache included, is
  as before. A call that follows directly (the clock not running backwards) therefore
  makes a lookup again: its trace is that of one more resolver call with one more fetch.
\<close>

theorem checkLocation_failure_not_cached:
  assumes "\<not> cache_fresh g w" and "lookup_fails w"
    and "checkLocation g w = (r, g1, w1)"
    and "clock w (ticks w) \<le> clock w1 (ticks w1)"
  shows "r = \<lparr>inEU = Bool True, country = Undefined, region = Undefined\<rparr>
       \<and> g1 = g
       \<and> trace (snd (snd (checkLocation g1 w1))) = trace w1 @ [Resolve, Fetch (endpoint g)]"
proof -
  define w' where
    "w' = (after_cache_test g w)
            \<lparr>fetches := Suc (fetches w), trace := trace w @ [Resolve, Fetch (endpoint g)]\<rparr>"
  have f: "network (after_cache_test g w) (fetches (after_cache_test g w)) = Rejected \<or>
           (\<exists>b. network (after_cache_test g w) (fetches (after_cache_test g w))
                  = Response False b)"
    using assms(2)
    by (auto simp: lookup_fails_def after_cache_test_def split: fetch_outcome.splits)
  have l: "lookup g (after_cache_test g w) = (on_error, g, w')"
    using f unfolding w'_def by (auto simp: lookup_cases after_cache_test_def)
  have c: "checkLocation g w = (on_error, g, w')"
    using assms(1) l by (simp add: checkLocation_cases)
  have r: "r = on_error" "g1 = g" and w1: "w1 = w'"
    using assms(3) unfolding c by auto
  have nf: "\<not> cache_fresh g w1"
    using assms(1,4) unfolding w1 w'_def
    by (auto simp: cache_fresh_def after_cache_test_def split: if_splits)
  have "trace (snd (snd (checkLocation g w1))) = trace w1 @ [Resolve, Fetch (endpoint g)]"
    using nf
    by (simp add: checkLocation_cases lookup_cases after_cache_test_def Let_def
        split: fetch_outcome.splits body.splits)
  then show ?thesis
    using r by (simp add: on_error_def)
qed

text \<open>C5 for a new resolver on the default endpoint while the network refuses every lookup.\<close>

theorem checkLocation_failure_not_cached_witness:
  "\<not> cache_fresh (new_GeolocationService None) quiet_world
   \<and> lookup_fails quiet_world
   \<and> fst (checkLocation (new_GeolocationService None) quiet_world)
       = \<lparr>inEU = Bool True, country = Undefined, region = Undefined\<rparr>
   \<and> fst (snd (checkLocation (new_GeolocationService None) quiet_world))
       = new_GeolocationService None
   \<and> trace (snd (snd (checkLocation (new_GeolocationService None)
                         (snd (snd (checkLocation (new_GeolocationService None)
                                      quiet_world))))))
       = [Resolve, Fetch ''https://ipapi.co/json/'', Resolve, Fetch ''https://ipapi.co/json/'']"
proof -
  define g where "g = new_GeolocationService None"
  define r where "r = fst (checkLocation g quiet_world)"
  define g1 where "g1 = fst (snd (checkLocation g quiet_world))"
  define w1 where "w1 = snd (snd (checkLocation g quiet_world))"
  have h1: "\<not> cache_fresh g quiet_world"
    by (simp add: g_def cache_fresh_def new_GeolocationService_def)
  have h2: "lookup_fails quiet_world"
    by (simp add: lookup_fails_def quiet_world_def)
  have h3: "checkLocation g quiet_world = (r, g1, w1)"
    by (simp add: r_def g1_def w1_def)
  have w: "w1 = quiet_world\<lparr>trace := [Resolve, Fetch ''https://ipapi.co/json/''],
                             fetches := 1\<rparr>"
    by (simp add: w1_def g_def checkLocation_cases lookup_cases resolver_defs quiet_world_def)
  have h4: "clock quiet_world (ticks quiet_world) \<le> clock w1 (ticks w1)"
    by (simp add: w quiet_world_def)
  have t: "trace w1 = [Resolve, Fetch ''https://ipapi.co/json/'']"
    and e: "endpoint g = ''https://ipapi.co/json/''"
    by (simp_all add: w g_def new_GeolocationService_def)
  note c = checkLocation_failure_not_cached[OF h1 h2 h3 h4]
  from c have c1: "r = \<lparr>inEU = Bool True, country = Undefined, region = Undefined\<rparr>"
    and c2: "g1 = g"
    and c3: "trace (snd (snd (checkLocation g1 w1))) = trace w1 @ [Resolve, Fetch (endpoint g)]"
    by blast+
  have c4: "trace (snd (snd (checkLocation g w1)))
      = [Resolve, Fetch ''https://ipapi.co/json/'', Resolve, Fetch ''https://ipapi.co/json/'']"
    using c3 unfolding c2 t e by simp
  show ?thesis
    using c1 c2 c4 h1 h2 unfolding r_def g1_def w1_def g_def by blast
qed

text \<open>
  C10. The response format is chosen by whether \<^verbatim>\<open>ipapi.co\<close> occurs anywhere in the
  endpoint URL, whoever supplied it. On a successful lookup with a body that is not
  \<^verbatim>\<open>null\<close>: if it occurs, \<^verbatim>\<open>inEU\<close> says whether \<^verbatim>\<open>country_code\<close> is in the fixed
  list of EU, EEA and UK codes; only if it does not occur are \<^verbatim>\<open>inEU\<close> and \<^verbatim>\<open>in_eu\<close>
  read.
\<close>

theorem checkLocation_dispatch:
  assumes "\<not> cache_fresh g w"
    and "network w (fetches w) = Response True (JsonBody data)" and "\<not> nullish data"
  shows "fst (checkLocation g w) =
           (if \<exists>before after. endpoint g = before @ ''ipapi.co'' @ after
            then \<lparr>inEU = Bool (field data ''country_code'' \<in> set (map Str euCountries)),
                  country = field data ''country_name'', region = field data ''region''\<rparr>
            else \<lparr>inEU = js_or (js_or (field data ''inEU'') (field data ''in_eu''))
                                (Bool False),
                  country = field data ''country'', region = field data ''region''\<rparr>)"
proof -
  have "includes_str (endpoint g) ''ipapi.co''
          = (\<exists>before after. endpoint g = before @ ''ipapi.co'' @ after)"
    by (simp add: includes_str_def sublist_def)
  then show ?thesis
    using assms
    by (simp add: checkLocation_cases lookup_cases after_cache_test_def Let_def)
qed

text \<open>
  C10 for a caller-supplied endpoint with \<^verbatim>\<open>ipapi.co\<close> in its path: the body says
  \<^verbatim>\<open>inEU: true\<close>, but the country code \<^verbatim>\<open>US\<close> decides.
\<close>

theorem checkLocation_dispatch_witness:
  "endpoint proxy_service = ''https://geo.example.com/'' @ ''ipapi.co'' @ ''/lookup''
   \<and> field us_body ''inEU'' = Bool True
   \<and> fst (checkLocation proxy_service us_world)
       = \<lparr>inEU = Bool False, country = Str ''United States'', region = Str ''California''\<rparr>"
proof -
  have e: "endpoint proxy_service = ''https://geo.example.com/'' @ ''ipapi.co'' @ ''/lookup''"
    by (simp add: proxy_service_def new_GeolocationService_def)
  then have x: "\<exists>before after. endpoint proxy_service = before @ ''ipapi.co'' @ after"
    by blast
  have h1: "\<not> cache_fresh proxy_service us_world"
    by (simp add: cache_fresh_def proxy_service_def new_GeolocationService_def)
  have h2: "network us_world (fetches us_world) = Response True (JsonBody us_body)"
    by (simp add: us_world_def quiet_world_def)
  have h3: "\<not> nullish us_body"
    by (simp add: us_body_def)
  have f: "field us_body ''inEU'' = Bool True" "field us_body ''country_code'' = Str ''US''"
    "field us_body ''country_name'' = Str ''United States''"
    "field us_body ''region'' = Str ''California''"
    by (simp_all add: us_body_def)
  have "fst (checkLocation proxy_service us_world)
       = \<lparr>inEU = Bool False, country = Str ''United States'', region = Str ''California''\<rparr>"
    using checkLocation_dispatch[OF h1 h2 h3] x
    by (simp add: f euCountries_def)
  then show ?thesis
    using e f(1) by blast
qed

section \<open>Startup of the dialog\<close>

lemma hasConsent_eq:
  "hasConsent s w = (fst (getConsent s w) \<noteq> None, snd (getConsent s w))"
  by (simp add: hasConsent_def split: prod.splits)

lemmas dialog_defs =
  plain_dialog_def silent_dialog_def located_dialog_def no_options_def new_CookieDialog_def
  mergeConfig_def or_default_def is_true_def getDefaultTranslations_def
  getDefaultCategories_def or_string_def

text \<open>
  C3. Let \<^verbatim>\<open>forceShow\<close> be off and let storage hold a record of the current version that
  is unexpired at both clock readings \<^verbatim>\<open>init\<close> takes. Then \<^verbatim>\<open>init\<close> leaves the dialog
  object as it was (nothing rendered, resolver state untouched) and the stored entry as it
  was; the clock has been read twice, and the only event is the accept notification, given
  the stored record (when the caller supplied that hook). In particular there is no call of
  the resolver, no fetch, no \<^verbatim>\<open>setItem\<close> and no \<^verbatim>\<open>removeItem\<close>.
\<close>

theorem init_existing_consent:
  assumes "\<not> is_true (forceShow (config d))"
    and "\<not> getItem_throws w" and "item w = Some (Json c)"
    and "version c = STORAGE_VERSION"
    and "clock w (ticks w) \<le> timestamp c + expiryDays (storage d) * 86400000"
    and "clock w (Suc (ticks w)) \<le> timestamp c + expiryDays (storage d) * 86400000"
  shows "init d w =
           (d, w\<lparr>ticks := Suc (Suc (ticks w)),
                 trace := trace w @ (if onAccept (config d) then [OnAccept c] else [])\<rparr>)"
proof -
  have 1: "getConsent (storage d) w = (Some c, w\<lparr>ticks := Suc (ticks w)\<rparr>)"
    using assms(2-5) by (simp add: getConsent_valid)
  have 2: "getConsent (storage d) (w\<lparr>ticks := Suc (ticks w)\<rparr>)
             = (Some c, w\<lparr>ticks := Suc (Suc (ticks w))\<rparr>)"
    using getConsent_valid[of "w\<lparr>ticks := Suc (ticks w)\<rparr>" c "storage d"] assms(2-4,6)
    by simp
  show ?thesis
    using assms(1) by (simp add: init_def hasConsent_eq 1 2 emit_def)
qed

text \<open>
  C3 for the returning visitor with record
  \<^verbatim>\<open>{necessary: true, analytics: false, marketing: true}\<close>.
\<close>

theorem init_existing_consent_witness:
  "\<not> is_true (forceShow (config plain_dialog))
   \<and> item returning_world = Some (Json earlier_consent)
   \<and> init plain_dialog returning_world
       = (plain_dialog, returning_world\<lparr>ticks := 2, trace := [OnAccept earlier_consent]\<rparr>)"
proof -
  have h1: "\<not> is_true (forceShow (config plain_dialog))"
    by (simp add: dialog_defs)
  have h2: "\<not> getItem_throws returning_world"
    and h3: "item returning_world = Some (Json earlier_consent)"
    by (simp_all add: returning_world_def quiet_world_def)
  have h4: "version earlier_consent = STORAGE_VERSION"
    by (simp add: earlier_consent_def STORAGE_VERSION_def)
  have h5: "clock returning_world (ticks returning_world)
              \<le> timestamp earlier_consent + expiryDays (storage plain_dialog) * 86400000"
    and h6: "clock returning_world (Suc (ticks returning_world))
              \<le> timestamp earlier_consent + expiryDays (storage plain_dialog) * 86400000"
    by (simp_all add: dialog_defs example_defs)
  have a: "onAccept (config plain_dialog)" and t: "trace returning_world = []"
    and k: "ticks returning_world = 0"
    by (simp_all add: dialog_defs example_defs)
  show ?thesis
    using init_existing_consent[OF h1 h2 h3 h4 h5 h6] h1 h3
    by (simp add: a t k)
qed

text \<open>
  C6. Let \<^verbatim>\<open>forceShow\<close> be off, the region check enabled, no valid record on file, and let
  the resolver answer that consent is not required. Then \<^verbatim>\<open>init\<close> calls \<^verbatim>\<open>setItem\<close>
  with a record that has every declared category true, reason
  \<^verbatim>\<open>location_not_required\<close>, and the country, region, \<^verbatim>\<open>inEU\<close> flag and detection
  method \<^verbatim>\<open>ip_geolocation\<close> attached; next it invokes the region-exempt hook with the
  resolver's answer, then the accept notification with the new record. The dialog is not
  rendered: of the dialog object only the resolver's state changes.
\<close>

theorem init_consent_not_required:
  assumes "\<not> is_true (forceShow (config d))" and "is_true (enableLocation (config d))"
    and "geolocation d = Some g"
    and "hasConsent (storage d) w = (False, w1)"
    and "checkLocation g w1 = (loc, g1, w2)"
    and "\<not> truthy (inEU loc)"
  shows "init d w =
           (d\<lparr>geolocation := Some g1\<rparr>,
            w2\<lparr>ticks := Suc (ticks w2),
               trace := trace w2 @ [SetItem (Json (region_exempt_record d loc w2))]
                          @ (if onLocationNotRequired (config d)
                             then [OnLocationNotRequired loc] else [])
                          @ (if onAccept (config d)
                             then [OnAccept (region_exempt_record d loc w2)] else []),
               item := (if setItem_throws w2 then item w2
                        else Some (Json (region_exempt_record d loc w2)))\<rparr>)"
  using assms
  by (simp add: init_def consent_not_required_def saveConsent_result new_consent_def
      accept_every_eq region_exempt_record_def emit_def Let_def)

text \<open>C6 on a first visit from the United States with the default categories.\<close>

theorem init_consent_not_required_witness:
  "hasConsent (storage located_dialog) us_world = (False, us_world)
   \<and> \<not> truthy (inEU (fst (checkLocation (new_GeolocationService None) us_world)))
   \<and> dialogElement (fst (init located_dialog us_world)) = None
   \<and> trace (snd (init located_dialog us_world))
       = [Resolve, Fetch ''https://ipapi.co/json/'',
          SetItem (Json (region_exempt_record located_dialog
                          \<lparr>inEU = Bool False, country = Str ''United States'',
                            region = Str ''California''\<rparr>
                          (quiet_world\<lparr>ticks := 1\<rparr>))),
          OnLocationNotRequired \<lparr>inEU = Bool False, country = Str ''United States'',
                                   region = Str ''California''\<rparr>,
          OnAccept (region_exempt_record located_dialog
                          \<lparr>inEU = Bool False, country = Str ''United States'',
                            region = Str ''California''\<rparr>
                          (quiet_world\<lparr>ticks := 1\<rparr>))]
   \<and> item (snd (init located_dialog us_world))
       = Some (Json (region_exempt_record located_dialog
                          \<lparr>inEU = Bool False, country = Str ''United States'',
                            region = Str ''California''\<rparr>
                          (quiet_world\<lparr>ticks := 1\<rparr>)))
   \<and> map (categories (region_exempt_record located_dialog
                          \<lparr>inEU = Bool False, country = Str ''United States'',
                            region = Str ''California''\<rparr>
                          (quiet_world\<lparr>ticks := 1\<rparr>)))
         [''necessary'', ''analytics'', ''marketing'', ''other'']
       = [Some True, Some True, Some True, None]"
proof -
  define g where "g = new_GeolocationService None"
  define loc where "loc = fst (checkLocation g us_world)"
  define g1 where "g1 = fst (snd (checkLocation g us_world))"
  define w2 where "w2 = snd (snd (checkLocation g us_world))"
  have h1: "\<not> is_true (forceShow (config located_dialog))"
    and h2: "is_true (enableLocation (config located_dialog))"
    and h3: "geolocation located_dialog = Some g"
    by (simp_all add: dialog_defs g_def)
  have h4: "hasConsent (storage located_dialog) us_world = (False, us_world)"
    by (simp add: hasConsent_eq getConsent_cases us_world_def quiet_world_def)
  have h5: "checkLocation g us_world = (loc, g1, w2)"
    by (simp add: loc_def g1_def w2_def)
  have l: "loc = \<lparr>inEU = Bool False, country = Str ''United States'',
                  region = Str ''California''\<rparr>"
    and w: "w2 = us_world\<lparr>trace := [Resolve, Fetch ''https://ipapi.co/json/''],
                           fetches := 1, ticks := 1\<rparr>"
    by (simp_all add: loc_def w2_def g_def checkLocation_cases lookup_cases resolver_defs
        default_endpoint_includes us_world_def quiet_world_def Let_def)
  have h6: "\<not> truthy (inEU loc)"
    by (simp add: l)
  have r: "region_exempt_record located_dialog loc w2
             = region_exempt_record located_dialog loc (quiet_world\<lparr>ticks := 1\<rparr>)"
    by (simp add: region_exempt_record_def w us_world_def quiet_world_def)
  have c: "map (categories (region_exempt_record located_dialog loc (quiet_world\<lparr>ticks := 1\<rparr>)))
             [''necessary'', ''analytics'', ''marketing'', ''other'']
           = [Some True, Some True, Some True, None]"
    by (simp add: region_exempt_record_def dialog_defs)
  have o: "onLocationNotRequired (config located_dialog)" "onAccept (config located_dialog)"
    "dialogElement located_dialog = None" "\<not> setItem_throws w2"
    by (simp_all add: dialog_defs w us_world_def quiet_world_def)
  have t: "trace w2 = [Resolve, Fetch ''https://ipapi.co/json/'']"
    by (simp add: w)
  show ?thesis
    using init_consent_not_required[OF h1 h2 h3 h4 h5 h6] h4 h6 c
    by (simp add: r o t l[symmetric] loc_def[symmetric] g_def[symmetric])
qed

text \<open>
  C8 (amended). Whenever \<^verbatim>\<open>init\<close> arrives at its last statement, it shows the dialog
  if \<^verbatim>\<open>autoShow\<close> is on (the default); if \<^verbatim>\<open>autoShow\<close> is off it leaves the dialog
  element as it was.
\<close>

theorem init_shows_when_autoShow:
  assumes "reaches_last_step d w"
  shows "dialogElement (fst (init d w)) =
           (if is_true (autoShow (config d)) then Some True else dialogElement d)"
  using assms
  by (auto simp: init_def reaches_last_step_def show_if_autoShow_def show_dialog_def
      render_def Let_def split: prod.splits option.splits bool.splits if_splits)

text \<open>The amended C8 on a first visit with no options set: the dialog is shown.\<close>

theorem init_shows_when_autoShow_witness:
  "reaches_last_step plain_dialog quiet_world
   \<and> dialogElement (fst (init plain_dialog quiet_world)) = Some True"
proof -
  have h: "reaches_last_step plain_dialog quiet_world"
    by (simp add: reaches_last_step_def dialog_defs quiet_world_def hasConsent_eq
        getConsent_cases)
  have a: "is_true (autoShow (config plain_dialog))"
    by (simp add: dialog_defs)
  show ?thesis
    using init_shows_when_autoShow[OF h] h by (simp add: a)
qed

text \<open>
  C8 as stated fails: on a first visit with the region check disabled and
  \<^verbatim>\<open>autoShow: false\<close>, \<^verbatim>\<open>init\<close> arrives at its last statement and renders nothing.
\<close>

theorem init_autoShow_off_renders_nothing:
  "reaches_last_step silent_dialog quiet_world
   \<and> dialogElement (fst (init silent_dialog quiet_world)) = None"
  by (simp add: reaches_last_step_def init_def show_if_autoShow_def dialog_defs example_defs
      hasConsent_eq getConsent_cases)

end
